theory Spec2Isabelle
  imports Complex_Main "HOL-Library.AList"
begin

section \<open>Shared vocabulary\<close>

text \<open>
  The trading bot is written in Python. Prices, sizes and balances are Python floats;
  they are modelled as reals, so rounding and the special values (NaN, infinities) are
  outside the model. Wall-clock readings (\<^verbatim>\<open>datetime.utcnow()\<close>) are reals
  counting seconds, and every reading is a parameter of the function that takes it.
\<close>

datatype signal = BUY | SELL | HOLD

datatype py_error = ZeroDivisionError | IndexError

text \<open>The fields of \<^verbatim>\<open>TradingConfig\<close> that the decision pipeline reads.\<close>

record config =
  trading_mode :: string
  order_type :: string
  max_position_size :: real
  stop_loss_percentage :: real
  take_profit_percentage :: real
  min_order_size :: real
  cooldown_period :: int
  rsi_period :: int
  rsi_oversold :: int
  rsi_overbought :: int
  bollinger_period :: int
  bollinger_std :: real

section \<open>Risk manager (src/risk/manager.py)\<close>

datatype position_status = NONE | OPEN | CLOSING

record position =
  entry_price :: real
  pos_size :: real
  entry_time :: real
  pos_status :: position_status
  stop_loss :: real
  take_profit :: real
  unrealized_pnl :: real
  realized_pnl :: real

text \<open>
  An entry of \<^verbatim>\<open>trade_history\<close>: the dictionary with type \<^verbatim>\<open>'open'\<close>
  (timestamp, price, size, value) or \<^verbatim>\<open>'close'\<close> (timestamp, price, size, pnl).
\<close>

datatype trade =
  OpenTrade real real real real
  | CloseTrade real real real real

text \<open>
  A call of the structured logger: level, message and the keyword arguments. The logger
  is an external collaborator; the entries a function emits are returned beside its
  result.
\<close>

datatype log_level = INFO | WARNING | ERROR

type_synonym log_entry = "log_level \<times> string \<times> (string \<times> real) list"

record risk_manager =
  balance :: real
  available_balance :: real
  current_position :: "position option"
  trade_history :: "trade list"
  last_trade_time :: "real option"
  total_pnl :: real
  win_rate :: real
  max_drawdown :: real
  peak_balance :: real

text \<open>The state \<^verbatim>\<open>RiskManager.__init__\<close> builds.\<close>

definition init_risk_manager :: risk_manager where
  "init_risk_manager =
     \<lparr>balance = 0, available_balance = 0, current_position = None, trade_history = [],
      last_trade_time = None, total_pnl = 0, win_rate = 0, max_drawdown = 0,
      peak_balance = 0\<rparr>"

definition set_balance :: "risk_manager \<Rightarrow> real \<Rightarrow> log_entry list \<times> risk_manager" where
  "set_balance rm b =
     ([(INFO, ''Balance set'', [(''balance'', b)])],
      rm\<lparr>balance := b, available_balance := b, peak_balance := b\<rparr>)"

text \<open>
  \<^verbatim>\<open>_calculate_position_size\<close>: the float division raises
  \<^verbatim>\<open>ZeroDivisionError\<close> when the price is zero.
\<close>

definition calculate_position_size :: "config \<Rightarrow> risk_manager \<Rightarrow> real \<Rightarrow> py_error + real" where
  "calculate_position_size cfg rm current_price =
     (let position_value = available_balance rm * max_position_size cfg
      in if current_price = 0 then Inl ZeroDivisionError
         else Inr (position_value / current_price))"

definition check_cooldown :: "config \<Rightarrow> risk_manager \<Rightarrow> real \<Rightarrow> bool" where
  "check_cooldown cfg rm now =
     (case last_trade_time rm of
        None \<Rightarrow> True
      | Some t \<Rightarrow> real_of_int (cooldown_period cfg) \<le> now - t)"

definition get_cooldown_remaining :: "config \<Rightarrow> risk_manager \<Rightarrow> real \<Rightarrow> int" where
  "get_cooldown_remaining cfg rm now =
     (case last_trade_time rm of
        None \<Rightarrow> 0
      | Some t \<Rightarrow> \<lfloor>max 0 (real_of_int (cooldown_period cfg) - (now - t))\<rfloor>)"

text \<open>
  The second component of the result of \<^verbatim>\<open>can_trade\<close> is a formatted message;
  the model keeps which message it is and the value it formats.
\<close>

datatype reason =
  TestModeAllowed
  | CooldownActive int
  | AlreadyHavePosition
  | NoPositionToSell
  | SizeBelowMinimum real
  | InsufficientBalance real
  | TradeAllowed

text \<open>
  \<^verbatim>\<open>can_trade\<close>. The clock is read once by \<^verbatim>\<open>_check_cooldown\<close> (\<open>now\<close>)
  and once more by \<^verbatim>\<open>_get_cooldown_remaining\<close> (\<open>now'\<close>). A \<^verbatim>\<open>Position\<close>
  object is always truthy, so \<^verbatim>\<open>self.current_position\<close> as a condition tests
  for \<^verbatim>\<open>None\<close>.
\<close>

definition can_trade ::
  "config \<Rightarrow> risk_manager \<Rightarrow> real \<Rightarrow> real \<Rightarrow> signal \<Rightarrow> real \<Rightarrow> py_error + (bool \<times> reason)" where
  "can_trade cfg rm now now' sg current_price =
     (if trading_mode cfg \<noteq> ''paper'' \<and> trading_mode cfg \<noteq> ''live'' then
        Inr (True, TestModeAllowed)
      else if \<not> check_cooldown cfg rm now then
        Inr (False, CooldownActive (get_cooldown_remaining cfg rm now'))
      else if sg = BUY \<and> current_position rm \<noteq> None then
        Inr (False, AlreadyHavePosition)
      else if sg = SELL \<and> current_position rm = None then
        Inr (False, NoPositionToSell)
      else if sg = BUY then
        (case calculate_position_size cfg rm current_price of
           Inl e \<Rightarrow> Inl e
         | Inr position_size \<Rightarrow>
             if position_size * current_price < min_order_size cfg then
               Inr (False, SizeBelowMinimum (position_size * current_price))
             else if available_balance rm < min_order_size cfg then
               Inr (False, InsufficientBalance (available_balance rm))
             else Inr (True, TradeAllowed))
      else Inr (True, TradeAllowed))"

text \<open>
  The dictionary \<^verbatim>\<open>calculate_order_details\<close> returns: the buy record, the sell
  record, or the empty dictionary.
\<close>

record buy_details =
  bd_side :: string
  bd_size :: real
  bd_value :: real
  bd_stop_loss :: real
  bd_take_profit :: real
  bd_risk_amount :: real
  bd_potential_profit :: real

record sell_details =
  sd_side :: string
  sd_size :: real
  sd_value :: real
  sd_entry_price :: real
  sd_exit_price :: real
  sd_pnl :: real

datatype order_details = BuyDetails buy_details | SellDetails sell_details | NoDetails

definition calculate_order_details ::
  "config \<Rightarrow> risk_manager \<Rightarrow> signal \<Rightarrow> real \<Rightarrow> real \<Rightarrow> py_error + order_details" where
  "calculate_order_details cfg rm sg current_price signal_strength =
     (if sg = BUY then
        (case calculate_position_size cfg rm current_price of
           Inl e \<Rightarrow> Inl e
         | Inr base_size \<Rightarrow>
             (let adjusted_size = base_size * signal_strength;
                  sl = current_price * (1 - stop_loss_percentage cfg / 100);
                  tp = current_price * (1 + take_profit_percentage cfg / 100)
              in Inr (BuyDetails
                   \<lparr>bd_side = ''buy'', bd_size = adjusted_size,
                    bd_value = adjusted_size * current_price,
                    bd_stop_loss = sl, bd_take_profit = tp,
                    bd_risk_amount = adjusted_size * (current_price - sl),
                    bd_potential_profit = adjusted_size * (tp - current_price)\<rparr>)))
      else if sg = SELL \<and> current_position rm \<noteq> None then
        (case current_position rm of
           Some p \<Rightarrow>
             Inr (SellDetails
               \<lparr>sd_side = ''sell'', sd_size = pos_size p,
                sd_value = pos_size p * current_price,
                sd_entry_price = entry_price p, sd_exit_price = current_price,
                sd_pnl = pos_size p * (current_price - entry_price p)\<rparr>)
         | None \<Rightarrow> Inr NoDetails)
      else Inr NoDetails)"

text \<open>
  \<^verbatim>\<open>open_position\<close> reads the clock for the entry time (\<open>now\<close>) and again for the
  last-trade time (\<open>now'\<close>). It replaces whatever position was there.
\<close>

definition open_position ::
  "risk_manager \<Rightarrow> real \<Rightarrow> real \<Rightarrow> real \<Rightarrow> real \<Rightarrow> real \<Rightarrow> real \<Rightarrow> log_entry list \<times> risk_manager" where
  "open_position rm now now' entry sz sl tp =
     (let p = \<lparr>entry_price = entry, pos_size = sz, entry_time = now, pos_status = OPEN,
               stop_loss = sl, take_profit = tp, unrealized_pnl = 0, realized_pnl = 0\<rparr>;
          position_value = sz * entry
      in ([(INFO, ''Position opened'',
             [(''entry_price'', entry), (''size'', sz), (''value'', position_value),
              (''stop_loss'', sl), (''take_profit'', tp)])],
          rm\<lparr>current_position := Some p,
             available_balance := available_balance rm - position_value,
             last_trade_time := Some now',
             trade_history := trade_history rm @ [OpenTrade now' entry sz position_value]\<rparr>))"

definition is_winning_trade :: "trade \<Rightarrow> bool" where
  "is_winning_trade t = (case t of CloseTrade ts pr sz pnl \<Rightarrow> 0 < pnl | OpenTrade ts pr sz v \<Rightarrow> False)"

definition is_losing_trade :: "trade \<Rightarrow> bool" where
  "is_losing_trade t = (case t of CloseTrade ts pr sz pnl \<Rightarrow> pnl \<le> 0 | OpenTrade ts pr sz v \<Rightarrow> False)"

definition update_metrics :: "risk_manager \<Rightarrow> risk_manager" where
  "update_metrics rm =
     (let winning_trades = filter is_winning_trade (trade_history rm);
          losing_trades = filter is_losing_trade (trade_history rm);
          total_closed = length winning_trades + length losing_trades;
          rm1 = (if 0 < total_closed
                 then rm\<lparr>win_rate := real (length winning_trades) / real total_closed\<rparr>
                 else rm)
      in if 0 < peak_balance rm1
         then rm1\<lparr>max_drawdown :=
                max (max_drawdown rm1) ((peak_balance rm1 - balance rm1) / peak_balance rm1)\<rparr>
         else rm1)"

text \<open>
  The \<^verbatim>\<open>Position\<close> object as \<^verbatim>\<open>close_position\<close> leaves it: the realized PnL is
  written into it before the manager drops its reference.
\<close>

definition closed_position :: "position \<Rightarrow> real \<Rightarrow> position" where
  "closed_position p exit_price =
     p\<lparr>realized_pnl := pos_size p * (exit_price - entry_price p)\<rparr>"

definition close_position :: "risk_manager \<Rightarrow> real \<Rightarrow> real \<Rightarrow> log_entry list \<times> risk_manager" where
  "close_position rm now exit_price =
     (case current_position rm of
        None \<Rightarrow> ([(ERROR, ''No position to close'', [])], rm)
      | Some p0 \<Rightarrow>
          (let p = closed_position p0 exit_price;
               pnl = realized_pnl p;
               total = total_pnl rm + pnl;
               bal = balance rm + pnl;
               peak = (if peak_balance rm < bal then bal else peak_balance rm)
           in ([(INFO, ''Position closed'',
                  [(''exit_price'', exit_price), (''entry_price'', entry_price p),
                   (''size'', pos_size p), (''pnl'', pnl), (''total_pnl'', total)])],
               update_metrics
                 (rm\<lparr>total_pnl := total, balance := bal, available_balance := bal,
                     peak_balance := peak, last_trade_time := Some now,
                     trade_history := trade_history rm @ [CloseTrade now exit_price (pos_size p) pnl],
                     current_position := None\<rparr>))))"

text \<open>
  \<^verbatim>\<open>update_position\<close> returns the exit signal (or \<^verbatim>\<open>None\<close>); the stop-loss
  comparison comes first, and each trigger logs its own message.
\<close>

definition update_position ::
  "risk_manager \<Rightarrow> real \<Rightarrow> signal option \<times> log_entry list \<times> risk_manager" where
  "update_position rm current_price =
     (case current_position rm of
        None \<Rightarrow> (None, [], rm)
      | Some p0 \<Rightarrow>
          (let p = p0\<lparr>unrealized_pnl := pos_size p0 * (current_price - entry_price p0)\<rparr>;
               rm' = rm\<lparr>current_position := Some p\<rparr>
           in if current_price \<le> stop_loss p then
                (Some SELL,
                 [(WARNING, ''Stop loss triggered'',
                    [(''current_price'', current_price), (''stop_loss'', stop_loss p)])],
                 rm')
              else if take_profit p \<le> current_price then
                (Some SELL,
                 [(INFO, ''Take profit triggered'',
                    [(''current_price'', current_price), (''take_profit'', take_profit p)])],
                 rm')
              else (None, [], rm')))"

section \<open>Signal processor (src/strategies/signal_processor.py)\<close>

record candle =
  c_timestamp :: real
  c_open :: real
  c_high :: real
  c_low :: real
  c_close :: real
  c_volume :: real

text \<open>
  The indicator snapshot, one field per key of the dictionary. The trailing average
  volume is undefined (pandas yields NaN) when fewer candles than its window are given;
  that is \<open>None\<close> here, and the comparison \<^verbatim>\<open>avg_volume > 0\<close> is then false.
\<close>

record indicators =
  rsi :: real
  bb_upper :: real
  bb_middle :: real
  bb_lower :: real
  bb_position :: real
  close :: real
  volume :: real
  volume_ratio :: real
  avg_volume :: "real option"

record signal_record =
  sr_timestamp :: real
  sr_signal :: signal
  sr_indicators :: indicators

record signal_processor =
  last_signal :: "signal option"
  signal_history :: "signal_record list"

definition init_signal_processor :: signal_processor where
  "init_signal_processor = \<lparr>last_signal = None, signal_history = []\<rparr>"

text \<open>
  The indicator formulas themselves belong to the libraries \<^verbatim>\<open>ta\<close> and
  \<^verbatim>\<open>pandas\<close>, which are not part of the repository: the last value of the RSI
  series (window, closes), of the three Bollinger series (window, deviation multiplier,
  closes) and of the rolling mean (window, volumes) are parameters.
\<close>

record indicator_library =
  rsi_last :: "int \<Rightarrow> real list \<Rightarrow> real"
  hband_last :: "int \<Rightarrow> real \<Rightarrow> real list \<Rightarrow> real"
  mavg_last :: "int \<Rightarrow> real \<Rightarrow> real list \<Rightarrow> real"
  lband_last :: "int \<Rightarrow> real \<Rightarrow> real list \<Rightarrow> real"
  rolling_mean_last :: "nat \<Rightarrow> real list \<Rightarrow> real option"

text \<open>
  \<^verbatim>\<open>_calculate_indicators\<close>. Reading the last element (\<^verbatim>\<open>.iloc[-1]\<close>) of an empty
  series raises \<^verbatim>\<open>IndexError\<close>.
\<close>

definition calculate_indicators ::
  "indicator_library \<Rightarrow> config \<Rightarrow> candle list \<Rightarrow> py_error + indicators" where
  "calculate_indicators lib cfg candles =
     (if candles = [] then Inl IndexError
      else
        (let close_prices = map c_close candles;
             r = rsi_last lib (rsi_period cfg) close_prices;
             upper = hband_last lib (bollinger_period cfg) (bollinger_std cfg) close_prices;
             middle = mavg_last lib (bollinger_period cfg) (bollinger_std cfg) close_prices;
             lower = lband_last lib (bollinger_period cfg) (bollinger_std cfg) close_prices;
             current_close = last close_prices;
             current_volume = c_volume (last candles);
             position = (if upper \<noteq> lower then (current_close - lower) / (upper - lower)
                         else 1 / 2);
             avg = rolling_mean_last lib 20 (map c_volume candles);
             ratio = (case avg of
                        Some a \<Rightarrow> if 0 < a then current_volume / a else 1
                      | None \<Rightarrow> 1)
         in Inr \<lparr>rsi = r, bb_upper = upper, bb_middle = middle, bb_lower = lower,
                 bb_position = position, close = current_close, volume = current_volume,
                 volume_ratio = ratio, avg_volume = avg\<rparr>))"

text \<open>\<^verbatim>\<open>signal_history[-5:]\<close>: the last five entries, or all of them when there are fewer.\<close>

definition last_five :: "'a list \<Rightarrow> 'a list" where
  "last_five xs = drop (length xs - 5) xs"

definition should_filter_signal :: "signal_processor \<Rightarrow> signal \<Rightarrow> bool" where
  "should_filter_signal sp sg =
     (if signal_history sp = [] \<or> sg = HOLD then False
      else
        (let recent_signals = filter (\<lambda>h. sr_signal h \<noteq> HOLD) (last_five (signal_history sp))
         in if recent_signals \<noteq> [] then
              (let last_meaningful_signal = sr_signal (last recent_signals)
               in (sg = BUY \<and> last_meaningful_signal = SELL) \<or>
                  (sg = SELL \<and> last_meaningful_signal = BUY))
            else False))"

text \<open>
  \<^verbatim>\<open>_generate_signal\<close>: the rule chain (named \<open>rule_signal\<close> here), then the
  volume confirmation, then the whipsaw filter. Its debug log lines are not modelled.
\<close>

definition rule_signal :: "config \<Rightarrow> indicators \<Rightarrow> signal" where
  "rule_signal cfg ind =
     (let rsi_buy = rsi ind < real_of_int (rsi_oversold cfg);
          rsi_sell = real_of_int (rsi_overbought cfg) < rsi ind;
          bb_buy = close ind \<le> bb_lower ind;
          bb_sell = bb_upper ind \<le> close ind
      in if rsi_buy \<and> bb_buy then BUY
         else if rsi_buy \<and> bb_position ind < 3 / 10 then BUY
         else if bb_buy \<and> rsi ind < 40 then BUY
         else if rsi_sell \<and> bb_sell then SELL
         else if rsi_sell \<and> 7 / 10 < bb_position ind then SELL
         else if bb_sell \<and> 60 < rsi ind then SELL
         else HOLD)"

definition generate_signal :: "config \<Rightarrow> signal_processor \<Rightarrow> indicators \<Rightarrow> signal" where
  "generate_signal cfg sp ind =
     (let s0 = rule_signal cfg ind;
          s1 = (if s0 \<noteq> HOLD \<and> volume_ratio ind < 1 / 2 then HOLD else s0)
      in if should_filter_signal sp s1 then HOLD else s1)"

text \<open>
  \<^verbatim>\<open>process\<close> returns the signal and the snapshot (\<open>None\<close> for the empty dictionary)
  beside the processor's new state. With too few candles it returns before anything is
  computed or recorded.
\<close>

definition process ::
  "indicator_library \<Rightarrow> config \<Rightarrow> signal_processor \<Rightarrow> candle list \<Rightarrow>
     py_error + (signal \<times> indicators option \<times> signal_processor)" where
  "process lib cfg sp candles =
     (if int (length candles) < max (rsi_period cfg) (bollinger_period cfg) then
        Inr (HOLD, None, sp)
      else
        (case calculate_indicators lib cfg candles of
           Inl e \<Rightarrow> Inl e
         | Inr ind \<Rightarrow>
             (let sg = generate_signal cfg sp ind
              in Inr (sg, Some ind,
                      sp\<lparr>last_signal := Some sg,
                         signal_history := signal_history sp @
                           [\<lparr>sr_timestamp = c_timestamp (last candles), sr_signal = sg,
                             sr_indicators = ind\<rparr>]\<rparr>))))"

section \<open>Execution engine (src/execution/engine.py): waiting for a fill\<close>

datatype order_status = PENDING | FILLED | CANCELLED | FAILED

record order =
  order_id :: string
  side :: string
  ord_size :: real
  price :: "real option"
  status :: order_status
  created_at :: real
  filled_at :: "real option"
  filled_price :: "real option"
  filled_size :: "real option"
  error_message :: "string option"

text \<open>
  \<^verbatim>\<open>pending_orders\<close> is a dictionary in insertion order, an association list
  here. An \<^verbatim>\<open>Order\<close> object is shared between the dictionary and the local
  variable of \<^verbatim>\<open>_wait_for_fill\<close>: the model writes every assignment to the object
  through to the dictionary entry.
\<close>

record execution_engine =
  pending_orders :: "(string \<times> order) list"
  order_history :: "order list"
  total_orders :: nat
  successful_orders :: nat
  failed_orders :: nat

definition init_execution_engine :: execution_engine where
  "init_execution_engine =
     \<lparr>pending_orders = [], order_history = [], total_orders = 0, successful_orders = 0,
      failed_orders = 0\<rparr>"

text \<open>
  What one call of the gateway's \<^verbatim>\<open>get_order\<close> does, as the loop body sees it:
  it raises (also: the order object has no status); or the response is empty or has no
  \<^verbatim>\<open>order\<close> attribute; or it carries an order with a status string and the two
  fill fields, each \<open>Some r\<close> when \<^verbatim>\<open>float()\<close> of the field is \<open>r\<close> and
  \<open>None\<close> when \<^verbatim>\<open>float()\<close> of it raises (the field is absent, \<^verbatim>\<open>None\<close> or
  not a number).
\<close>

datatype gateway_poll =
  PollRaises
  | PollNoOrder
  | PollOrder string "real option" "real option"

definition write_through :: "string \<Rightarrow> order \<Rightarrow> execution_engine \<Rightarrow> execution_engine" where
  "write_through oid ord eng = eng\<lparr>pending_orders := AList.update oid ord (pending_orders eng)\<rparr>"

definition del_pending :: "string \<Rightarrow> execution_engine \<Rightarrow> execution_engine" where
  "del_pending oid eng = eng\<lparr>pending_orders := AList.delete oid (pending_orders eng)\<rparr>"

text \<open>
  One pass through the body of the polling loop, at clock reading \<open>now\<close>: \<open>Inl\<close> when
  the body returns the order, \<open>Inr\<close> when the loop goes on (after the sleep). An
  exception inside the \<^verbatim>\<open>try\<close> is caught and logged, and the loop goes on with
  whatever had been assigned before it was raised.
\<close>

definition poll_once ::
  "string \<Rightarrow> order \<Rightarrow> execution_engine \<Rightarrow> real \<times> gateway_poll \<Rightarrow>
     (order \<times> execution_engine) + (order \<times> execution_engine)" where
  "poll_once oid ord eng step =
     (case step of (now, resp) \<Rightarrow>
        (case resp of
           PollRaises \<Rightarrow> Inr (ord, eng)
         | PollNoOrder \<Rightarrow> Inr (ord, eng)
         | PollOrder api_status average_filled_price api_filled_size \<Rightarrow>
             if api_status = ''FILLED'' then
               (let o1 = ord\<lparr>status := FILLED, filled_at := Some now\<rparr>
                in case average_filled_price of
                     None \<Rightarrow> Inr (o1, write_through oid o1 eng)
                   | Some p \<Rightarrow>
                       (let o2 = o1\<lparr>filled_price := Some p\<rparr>
                        in case api_filled_size of
                             None \<Rightarrow> Inr (o2, write_through oid o2 eng)
                           | Some z \<Rightarrow>
                               (let o3 = o2\<lparr>filled_size := Some z\<rparr>
                                in Inl (o3, del_pending oid eng))))
             else if api_status = ''CANCELLED'' \<or> api_status = ''EXPIRED'' then
               (let o1 = ord\<lparr>status := CANCELLED,
                             error_message := Some (''Order '' @ api_status)\<rparr>
                in Inl (o1, del_pending oid eng))
             else Inr (ord, eng)))"

text \<open>
  The loop of \<^verbatim>\<open>_wait_for_fill\<close> runs while the clock is inside the timeout; the
  polls it makes before the timeout are the list \<open>polls\<close>. When they are used up the
  timeout branch runs: \<open>cancel_ok\<close> tells whether the gateway's
  \<^verbatim>\<open>cancel_orders\<close> returned (\<open>True\<close>) or raised (\<open>False\<close>).
\<close>

fun wait_loop ::
  "string \<Rightarrow> order \<Rightarrow> execution_engine \<Rightarrow> (real \<times> gateway_poll) list \<Rightarrow> bool \<Rightarrow>
     order \<times> execution_engine" where
  "wait_loop oid ord eng [] cancel_ok =
     (let o1 = (if cancel_ok
                then ord\<lparr>status := CANCELLED, error_message := Some ''Order timeout''\<rparr>
                else ord)
      in (o1, del_pending oid eng))"
| "wait_loop oid ord eng (step # polls) cancel_ok =
     (case poll_once oid ord eng step of
        Inl done \<Rightarrow> done
      | Inr (ord', eng') \<Rightarrow> wait_loop oid ord' eng' polls cancel_ok)"

definition wait_for_fill ::
  "execution_engine \<Rightarrow> string \<Rightarrow> (real \<times> gateway_poll) list \<Rightarrow> bool \<Rightarrow>
     order option \<times> execution_engine" where
  "wait_for_fill eng oid polls cancel_ok =
     (case map_of (pending_orders eng) oid of
        None \<Rightarrow> (None, eng)
      | Some ord \<Rightarrow>
          (case wait_loop oid ord eng polls cancel_ok of
             (ord', eng') \<Rightarrow> (Some ord', eng')))"

text \<open>
  \<^verbatim>\<open>check_pending_orders\<close> waits for each key of a snapshot of the dictionary in
  turn; \<open>gateway\<close> gives, for an order id, the polls and the cancel outcome its wait
  meets.
\<close>

definition check_pending_orders ::
  "execution_engine \<Rightarrow> (string \<Rightarrow> (real \<times> gateway_poll) list \<times> bool) \<Rightarrow> execution_engine" where
  "check_pending_orders eng gateway =
     foldl (\<lambda>e oid. snd (wait_for_fill e oid (fst (gateway oid)) (snd (gateway oid))))
       eng (map fst (pending_orders eng))"

section \<open>Fixtures\<close>

text \<open>The configuration of the test suite (tests/conftest.py), with the mode left open.\<close>

definition test_config :: "string \<Rightarrow> config" where
  "test_config mode =
     \<lparr>trading_mode = mode, order_type = ''market'', max_position_size = 1 / 10,
      stop_loss_percentage = 2, take_profit_percentage = 5, min_order_size = 10,
      cooldown_period = 300, rsi_period = 14, rsi_oversold = 30, rsi_overbought = 70,
      bollinger_period = 20, bollinger_std = 2\<rparr>"

definition funded_manager :: risk_manager where
  "funded_manager = snd (set_balance init_risk_manager 10000)"

definition scenario_position :: position where
  "scenario_position =
     \<lparr>entry_price = 50000, pos_size = 2 / 1000, entry_time = 0, pos_status = OPEN,
      stop_loss = 49000, take_profit = 52500, unrealized_pnl = 0, realized_pnl = 0\<rparr>"

definition holding_manager :: risk_manager where
  "holding_manager = funded_manager\<lparr>current_position := Some scenario_position\<rparr>"

definition pending_order :: order where
  "pending_order =
     \<lparr>order_id = ''test-123'', side = ''buy'', ord_size = 2 / 1000, price = Some 50000,
      status = PENDING, created_at = 0, filled_at = None, filled_price = None,
      filled_size = None, error_message = None\<rparr>"

definition tracking_engine :: execution_engine where
  "tracking_engine = init_execution_engine\<lparr>pending_orders := [(''test-123'', pending_order)]\<rparr>"

text \<open>
  A full open/close cycle of the risk manager, and a run of such cycles: the clock
  readings of the three calls, then the arguments of \<^verbatim>\<open>open_position\<close> and of
  \<^verbatim>\<open>close_position\<close>.
\<close>

record cycle =
  cy_clock :: "real \<times> real \<times> real"
  cy_entry :: real
  cy_size :: real
  cy_stop_loss :: real
  cy_take_profit :: real
  cy_exit :: real

definition round_trip :: "risk_manager \<Rightarrow> cycle \<Rightarrow> risk_manager" where
  "round_trip rm c =
     (case cy_clock c of (t1, t2, t3) \<Rightarrow>
        snd (close_position
               (snd (open_position rm t1 t2 (cy_entry c) (cy_size c) (cy_stop_loss c)
                       (cy_take_profit c)))
               t3 (cy_exit c)))"

fun run_cycles :: "risk_manager \<Rightarrow> cycle list \<Rightarrow> risk_manager" where
  "run_cycles rm [] = rm"
| "run_cycles rm (c # cs) = run_cycles (round_trip rm c) cs"

text \<open>
  Stand-ins for the indicator libraries and a candle, for evaluating \<^verbatim>\<open>process\<close>
  on concrete input; the indicator values of Scenarios A and B with the volume ratio left
  open; and the order of the fill-waiting tests after a first poll has marked it filled.
\<close>

definition flat_library :: indicator_library where
  "flat_library =
     \<lparr>rsi_last = (\<lambda>w xs. 50), hband_last = (\<lambda>w k xs. 51000), mavg_last = (\<lambda>w k xs. 50000),
      lband_last = (\<lambda>w k xs. 49000),
      rolling_mean_last = (\<lambda>w xs. if length xs < w then None else Some 1000)\<rparr>"

definition flat_candle :: candle where
  "flat_candle =
     \<lparr>c_timestamp = 0, c_open = 50000, c_high = 50100, c_low = 49900, c_close = 50000,
      c_volume = 1000\<rparr>"

definition scenario_indicators :: "real \<Rightarrow> indicators" where
  "scenario_indicators vr =
     \<lparr>rsi = 25, bb_upper = 51000, bb_middle = 50000, bb_lower = 49000, bb_position = 0,
      close = 49000, volume = 1000, volume_ratio = vr, avg_volume = Some 1000\<rparr>"

definition half_filled_order :: order where
  "half_filled_order = pending_order\<lparr>status := FILLED, filled_at := Some 1\<rparr>"

text \<open>
  A poll is complete when a \<^verbatim>\<open>FILLED\<close> status comes with both fill fields
  readable as numbers.
\<close>

definition complete_fill :: "gateway_poll \<Rightarrow> bool" where
  "complete_fill resp =
     (case resp of
        PollOrder api_status p z \<Rightarrow> api_status \<noteq> ''FILLED'' \<or> (p \<noteq> None \<and> z \<noteq> None)
      | PollRaises \<Rightarrow> True
      | PollNoOrder \<Rightarrow> True)"

section \<open>Properties of the risk manager\<close>

lemma update_metrics_keeps:
  "total_pnl (update_metrics rm) = total_pnl rm"
  "balance (update_metrics rm) = balance rm"
  "available_balance (update_metrics rm) = available_balance rm"
  "trade_history (update_metrics rm) = trade_history rm"
  "current_position (update_metrics rm) = current_position rm"
  "last_trade_time (update_metrics rm) = last_trade_time rm"
  "peak_balance (update_metrics rm) = peak_balance rm"
  by (simp_all add: update_metrics_def Let_def)

lemma open_position_fields:
  "current_position (snd (open_position rm t1 t2 entry sz sl tp)) =
     Some \<lparr>entry_price = entry, pos_size = sz, entry_time = t1, pos_status = OPEN,
           stop_loss = sl, take_profit = tp, unrealized_pnl = 0, realized_pnl = 0\<rparr>"
  "total_pnl (snd (open_position rm t1 t2 entry sz sl tp)) = total_pnl rm"
  "balance (snd (open_position rm t1 t2 entry sz sl tp)) = balance rm"
  "available_balance (snd (open_position rm t1 t2 entry sz sl tp)) =
     available_balance rm - sz * entry"
  "trade_history (snd (open_position rm t1 t2 entry sz sl tp)) =
     trade_history rm @ [OpenTrade t2 entry sz (sz * entry)]"
  by (simp_all add: open_position_def Let_def)

lemma close_position_fields:
  assumes "current_position rm = Some p"
  shows "total_pnl (snd (close_position rm t ex)) =
           total_pnl rm + pos_size p * (ex - entry_price p)"
    and "balance (snd (close_position rm t ex)) =
           balance rm + pos_size p * (ex - entry_price p)"
    and "available_balance (snd (close_position rm t ex)) =
           balance rm + pos_size p * (ex - entry_price p)"
    and "current_position (snd (close_position rm t ex)) = None"
    and "trade_history (snd (close_position rm t ex)) =
           trade_history rm @
             [CloseTrade t ex (pos_size p) (pos_size p * (ex - entry_price p))]"
  using assms
  by (simp_all add: close_position_def closed_position_def Let_def update_metrics_keeps)

lemma round_trip_fields:
  "total_pnl (round_trip rm c) = total_pnl rm + cy_size c * (cy_exit c - cy_entry c)"
  "balance (round_trip rm c) = balance rm + cy_size c * (cy_exit c - cy_entry c)"
  "current_position (round_trip rm c) = None"
  by (cases "cy_clock c"; simp add: round_trip_def close_position_fields open_position_fields)+

lemma run_cycles_total_pnl:
  "total_pnl (run_cycles rm cs) =
     total_pnl rm + (\<Sum>c\<leftarrow>cs. cy_size c * (cy_exit c - cy_entry c))"
  by (induction cs arbitrary: rm) (simp_all add: round_trip_fields)

text \<open>
  C1, as the code has it. In the modes \<^verbatim>\<open>paper\<close> and \<^verbatim>\<open>live\<close>, whatever the
  state, the clock and the price: a BUY is rejected when a position is open, and a SELL
  is rejected when none is. In every other mode (the test mode among them) the mode check
  comes first and \<^verbatim>\<open>can_trade\<close> allows every signal, a BUY over an open position
  included.
\<close>

theorem can_trade_position_rules:
  "(trading_mode cfg = ''paper'' \<or> trading_mode cfg = ''live'' \<longrightarrow>
      (current_position rm \<noteq> None \<longrightarrow>
         (\<exists>r. can_trade cfg rm now now' BUY current_price = Inr (False, r))) \<and>
      (current_position rm = None \<longrightarrow>
         (\<exists>r. can_trade cfg rm now now' SELL current_price = Inr (False, r)))) \<and>
   (trading_mode cfg \<noteq> ''paper'' \<and> trading_mode cfg \<noteq> ''live'' \<longrightarrow>
      can_trade cfg rm now now' sg current_price = Inr (True, TestModeAllowed))"
  by (auto simp add: can_trade_def)

theorem can_trade_position_rules_witness:
  "(\<exists>r. can_trade (test_config ''paper'') holding_manager 1000 1000 BUY 50000 = Inr (False, r)) \<and>
   (\<exists>r. can_trade (test_config ''live'') funded_manager 1000 1000 SELL 50000 = Inr (False, r)) \<and>
   can_trade (test_config ''test'') holding_manager 1000 1000 BUY 50000 =
     Inr (True, TestModeAllowed)"
  using can_trade_position_rules [of "test_config ''paper''" holding_manager 1000 1000 50000 BUY]
        can_trade_position_rules [of "test_config ''live''" funded_manager 1000 1000 50000 SELL]
        can_trade_position_rules [of "test_config ''test''" holding_manager 1000 1000 50000 BUY]
  by (simp add: test_config_def holding_manager_def funded_manager_def set_balance_def
        init_risk_manager_def)

text \<open>
  In test mode a BUY is allowed although a position is open: the claim as first stated
  (rejection in every mode) fails there.
\<close>

theorem can_trade_test_mode_counterexample:
  "current_position holding_manager \<noteq> None \<and>
   can_trade (test_config ''test'') holding_manager 1000 1000 BUY 50000 =
     Inr (True, TestModeAllowed)"
  by (simp add: can_trade_def test_config_def holding_manager_def)

text \<open>
  C3. Opening a position at \<open>entry\<close> with size \<open>sz\<close> and closing it at \<open>ex\<close>, from any
  state of the manager: the realized PnL written into the position is
  \<open>sz * (ex - entry)\<close>; the total PnL and the balance each grow by exactly that amount;
  the history gains the open and the close entry, the latter carrying that PnL; over a
  run of cycles the total PnL grows by the sum of the cycles' terms; and entry 50000,
  size 0.002, exit 49000 gives -2.
\<close>

theorem round_trip_realized_pnl:
  "map_option (\<lambda>p. realized_pnl (closed_position p ex))
       (current_position (snd (open_position rm t1 t2 entry sz sl tp))) =
     Some (sz * (ex - entry))
   \<and> total_pnl (snd (close_position (snd (open_position rm t1 t2 entry sz sl tp)) t3 ex))
       = total_pnl rm + sz * (ex - entry)
   \<and> balance (snd (close_position (snd (open_position rm t1 t2 entry sz sl tp)) t3 ex))
       = balance rm + sz * (ex - entry)
   \<and> trade_history (snd (close_position (snd (open_position rm t1 t2 entry sz sl tp)) t3 ex))
       = trade_history rm @
           [OpenTrade t2 entry sz (sz * entry), CloseTrade t3 ex sz (sz * (ex - entry))]
   \<and> total_pnl (run_cycles rm cs)
       = total_pnl rm + (\<Sum>c\<leftarrow>cs. cy_size c * (cy_exit c - cy_entry c))
   \<and> total_pnl (snd (close_position
         (snd (open_position init_risk_manager t1 t2 50000 (2 / 1000) 49000 52500)) t3 49000))
       = - 2"
  by (simp add: close_position_fields open_position_fields run_cycles_total_pnl
        closed_position_def init_risk_manager_def)

text \<open>
  C4, as the code has it. For a BUY at a nonzero price the size is the available balance
  times the maximal position fraction, divided by the price, times the strength; the
  value is that size times the price; the stop loss is the price times
  (1 - stop-loss percentage / 100) and the take profit the price times
  (1 + take-profit percentage / 100). At price zero the division raises.
\<close>

theorem buy_order_details:
  "calculate_order_details cfg rm BUY current_price strength =
     (if current_price = 0 then Inl ZeroDivisionError
      else Inr (BuyDetails
        \<lparr>bd_side = ''buy'',
         bd_size = (available_balance rm * max_position_size cfg / current_price) * strength,
         bd_value =
           ((available_balance rm * max_position_size cfg / current_price) * strength) *
             current_price,
         bd_stop_loss = current_price * (1 - stop_loss_percentage cfg / 100),
         bd_take_profit = current_price * (1 + take_profit_percentage cfg / 100),
         bd_risk_amount =
           ((available_balance rm * max_position_size cfg / current_price) * strength) *
             (current_price - current_price * (1 - stop_loss_percentage cfg / 100)),
         bd_potential_profit =
           ((available_balance rm * max_position_size cfg / current_price) * strength) *
             (current_price * (1 + take_profit_percentage cfg / 100) - current_price)\<rparr>))"
  by (simp add: calculate_order_details_def calculate_position_size_def Let_def)

theorem buy_order_details_witness:
  "calculate_order_details (test_config ''paper'') funded_manager BUY 50000 1 =
     Inr (BuyDetails \<lparr>bd_side = ''buy'', bd_size = 2 / 100, bd_value = 1000,
            bd_stop_loss = 49000, bd_take_profit = 52500, bd_risk_amount = 20,
            bd_potential_profit = 50\<rparr>)"
  using buy_order_details [of "test_config ''paper''" funded_manager 50000 1]
  by (simp add: test_config_def funded_manager_def set_balance_def init_risk_manager_def)

text \<open>
  Scenario C itself: balance 10000, fraction 0.1, price 50000, strength 1 give the size
  0.02, which is not (balance times fraction) times strength = 1000.
\<close>

theorem buy_size_counterexample:
  "calculate_order_details (test_config ''test'') funded_manager BUY 50000 1 =
     Inr (BuyDetails \<lparr>bd_side = ''buy'', bd_size = 2 / 100, bd_value = 1000,
            bd_stop_loss = 49000, bd_take_profit = 52500, bd_risk_amount = 20,
            bd_potential_profit = 50\<rparr>) \<and>
   (2 / 100 :: real) \<noteq>
     (available_balance funded_manager * max_position_size (test_config ''test'')) * 1"
  by (simp add: calculate_order_details_def calculate_position_size_def test_config_def
        funded_manager_def set_balance_def init_risk_manager_def Let_def)

text \<open>
  C5. With no position \<^verbatim>\<open>update_position\<close> returns \<^verbatim>\<open>None\<close>. With a position:
  a price at or below the stop loss gives SELL through the stop-loss branch (its warning
  is what is logged), whatever the take profit; a price above the stop loss and at or
  above the take profit gives SELL through the take-profit branch; a price strictly
  between the two gives \<^verbatim>\<open>None\<close>.
\<close>

theorem update_position_exit_rules:
  "(current_position rm = None \<longrightarrow> update_position rm current_price = (None, [], rm)) \<and>
   (current_position rm = Some p \<longrightarrow>
      (current_price \<le> stop_loss p \<longrightarrow>
         fst (update_position rm current_price) = Some SELL \<and>
         fst (snd (update_position rm current_price)) =
           [(WARNING, ''Stop loss triggered'',
              [(''current_price'', current_price), (''stop_loss'', stop_loss p)])]) \<and>
      (stop_loss p < current_price \<and> take_profit p \<le> current_price \<longrightarrow>
         fst (update_position rm current_price) = Some SELL \<and>
         fst (snd (update_position rm current_price)) =
           [(INFO, ''Take profit triggered'',
              [(''current_price'', current_price), (''take_profit'', take_profit p)])]) \<and>
      (stop_loss p < current_price \<and> current_price < take_profit p \<longrightarrow>
         fst (update_position rm current_price) = None))"
  by (auto simp add: update_position_def Let_def)

theorem update_position_exit_rules_witness:
  "fst (update_position holding_manager 49000) = Some SELL \<and>
   fst (update_position holding_manager 52500) = Some SELL \<and>
   fst (update_position holding_manager 50500) = None \<and>
   update_position funded_manager 50000 = (None, [], funded_manager)"
  using update_position_exit_rules [of holding_manager 49000 scenario_position]
        update_position_exit_rules [of holding_manager 52500 scenario_position]
        update_position_exit_rules [of holding_manager 50500 scenario_position]
        update_position_exit_rules [of funded_manager 50000 scenario_position]
  by (simp add: holding_manager_def funded_manager_def scenario_position_def set_balance_def
        init_risk_manager_def)

text \<open>
  C6. With no open position, \<^verbatim>\<open>close_position\<close> returns without raising and
  leaves the whole state of the manager as it was (balance, available balance, total PnL,
  trade history, last-trade time and every metric); its only effect is the logged error.
\<close>

theorem close_position_without_position_is_noop:
  "current_position rm = None \<Longrightarrow>
     close_position rm now exit_price = ([(ERROR, ''No position to close'', [])], rm)"
  by (simp add: close_position_def)

theorem close_position_without_position_witness:
  "current_position funded_manager = None \<and>
   close_position funded_manager 7 50000 =
     ([(ERROR, ''No position to close'', [])], funded_manager)"
  using close_position_without_position_is_noop [of funded_manager 7 50000]
  by (simp add: funded_manager_def set_balance_def init_risk_manager_def)

text \<open>
  C10. \<^verbatim>\<open>update_position\<close> changes nothing of the manager but the unrealized PnL of
  the open position: balance, available balance, total PnL, trade history, last-trade
  time and the metrics stay, and the position stays in place with every other field as it
  was, also when the call returns SELL.
\<close>

theorem update_position_frame:
  "balance (snd (snd (update_position rm current_price))) = balance rm \<and>
   available_balance (snd (snd (update_position rm current_price))) = available_balance rm \<and>
   total_pnl (snd (snd (update_position rm current_price))) = total_pnl rm \<and>
   trade_history (snd (snd (update_position rm current_price))) = trade_history rm \<and>
   last_trade_time (snd (snd (update_position rm current_price))) = last_trade_time rm \<and>
   win_rate (snd (snd (update_position rm current_price))) = win_rate rm \<and>
   max_drawdown (snd (snd (update_position rm current_price))) = max_drawdown rm \<and>
   peak_balance (snd (snd (update_position rm current_price))) = peak_balance rm \<and>
   current_position (snd (snd (update_position rm current_price))) =
     map_option (\<lambda>p. p\<lparr>unrealized_pnl := pos_size p * (current_price - entry_price p)\<rparr>)
       (current_position rm)"
  by (simp add: update_position_def Let_def split: option.split)

section \<open>Properties of the signal processor\<close>

text \<open>
  C8, as the code has it. With fewer candles than the larger of the two windows,
  \<^verbatim>\<open>process\<close> returns HOLD with the empty snapshot and leaves the processor, its
  history included, as it was. With at least that many candles (and at least one) it
  returns a signal with the computed snapshot and appends exactly one record, made of the
  last candle's timestamp, that signal and that snapshot.
\<close>

theorem process_history:
  "(int (length candles) < max (rsi_period cfg) (bollinger_period cfg) \<longrightarrow>
      process lib cfg sp candles = Inr (HOLD, None, sp)) \<and>
   (max (rsi_period cfg) (bollinger_period cfg) \<le> int (length candles) \<and> candles \<noteq> [] \<longrightarrow>
      (\<exists>sg ind. process lib cfg sp candles =
         Inr (sg, Some ind,
              sp\<lparr>last_signal := Some sg,
                 signal_history := signal_history sp @
                   [\<lparr>sr_timestamp = c_timestamp (last candles), sr_signal = sg,
                     sr_indicators = ind\<rparr>]\<rparr>)))"
  by (auto simp add: process_def calculate_indicators_def Let_def)

theorem process_history_witness:
  "process flat_library (test_config ''test'') init_signal_processor (replicate 5 flat_candle) =
     Inr (HOLD, None, init_signal_processor) \<and>
   (\<exists>sg ind. process flat_library (test_config ''test'') init_signal_processor
        (replicate 20 flat_candle) =
      Inr (sg, Some ind,
           \<lparr>last_signal = Some sg,
            signal_history = [\<lparr>sr_timestamp = 0, sr_signal = sg, sr_indicators = ind\<rparr>]\<rparr>))"
  using process_history [of "replicate 5 flat_candle" "test_config ''test''" flat_library
          init_signal_processor]
        process_history [of "replicate 20 flat_candle" "test_config ''test''" flat_library
          init_signal_processor]
  by (simp add: test_config_def init_signal_processor_def flat_candle_def)

text \<open>
  Five candles against windows of 14 and 20: the call returns HOLD and the history is
  still empty, so no record was appended.
\<close>

theorem process_short_input_counterexample:
  "process flat_library (test_config ''test'') init_signal_processor (replicate 5 flat_candle) =
     Inr (HOLD, None, init_signal_processor) \<and>
   signal_history init_signal_processor = []"
  by (simp add: process_def test_config_def init_signal_processor_def)

text \<open>
  C9. Whatever the snapshot, the configuration and the history, a volume ratio below 0.5
  makes \<^verbatim>\<open>_generate_signal\<close> return HOLD. With an empty history, RSI 25 and the
  close 49000 on the lower band, the volume ratio 1.5 gives BUY and the volume ratio 0.3
  gives HOLD.
\<close>

theorem volume_veto:
  "(volume_ratio ind < 1 / 2 \<longrightarrow> generate_signal cfg sp ind = HOLD) \<and>
   (signal_history sp = [] \<and> rsi ind = 25 \<and> close ind = 49000 \<and> bb_lower ind = 49000 \<and>
      volume_ratio ind = 3 / 2 \<longrightarrow> generate_signal cfg sp ind = BUY) \<and>
   (signal_history sp = [] \<and> rsi ind = 25 \<and> close ind = 49000 \<and> bb_lower ind = 49000 \<and>
      volume_ratio ind = 3 / 10 \<longrightarrow> generate_signal cfg sp ind = HOLD)"
  by (auto simp add: generate_signal_def rule_signal_def should_filter_signal_def Let_def)

theorem volume_veto_witness:
  "generate_signal (test_config ''test'') init_signal_processor (scenario_indicators (3 / 2)) = BUY \<and>
   generate_signal (test_config ''test'') init_signal_processor (scenario_indicators (3 / 10)) = HOLD"
  using volume_veto [of "scenario_indicators (3 / 2)" "test_config ''test''" init_signal_processor]
        volume_veto [of "scenario_indicators (3 / 10)" "test_config ''test''" init_signal_processor]
  by (simp add: scenario_indicators_def init_signal_processor_def)

section \<open>Properties of the fill wait\<close>

text \<open>
  Whatever the polls and the cancel outcome, the order id is no key of the pending
  dictionary once \<^verbatim>\<open>_wait_for_fill\<close> has returned.
\<close>

lemma wait_loop_keys:
  "map fst (pending_orders (snd (wait_loop oid ord eng polls cancel_ok))) =
     removeAll oid (map fst (pending_orders eng))"
proof (induction polls arbitrary: ord eng)
  case Nil
  show ?case by (simp add: del_pending_def delete_keys Let_def)
next
  case (Cons step polls)
  show ?case
    by (cases step)
       (auto simp add: poll_once_def del_pending_def write_through_def delete_keys update_keys
          Cons.IH Let_def split: gateway_poll.split option.split)
qed

lemma wait_for_fill_removes_order:
  "oid \<notin> fst ` set (pending_orders (snd (wait_for_fill eng oid polls cancel_ok)))"
proof (cases "map_of (pending_orders eng) oid")
  case None
  then have "oid \<notin> fst ` set (pending_orders eng)"
    by (simp add: map_of_eq_None_iff)
  with None show ?thesis by (simp add: wait_for_fill_def)
next
  case (Some ord)
  have "map fst (pending_orders (snd (wait_for_fill eng oid polls cancel_ok))) =
          removeAll oid (map fst (pending_orders eng))"
    using Some wait_loop_keys [of oid ord eng polls cancel_ok]
    by (auto simp add: wait_for_fill_def split: prod.split)
  then have "oid \<notin> set (map fst (pending_orders (snd (wait_for_fill eng oid polls cancel_ok))))"
    by simp
  then show ?thesis by simp
qed

text \<open>
  A pass of the loop over a complete poll either returns or leaves the order and the
  engine untouched.
\<close>

lemma poll_once_complete_fill_keeps_order:
  "complete_fill resp \<Longrightarrow> poll_once oid ord eng (now, resp) = Inr (ord', eng') \<Longrightarrow>
     ord' = ord \<and> eng' = eng"
  by (auto simp add: complete_fill_def poll_once_def Let_def
        split: gateway_poll.splits option.splits if_splits)

text \<open>
  C2 fails on the code. The \<^verbatim>\<open>FILLED\<close> branch assigns the status before it reads
  the fill price and size; when reading one of them raises, the exception is caught by
  the loop, which goes on with an order that is FILLED and still pending. A later
  \<^verbatim>\<open>CANCELLED\<close> poll, or the timeout with a cancel that returns, then sets the status
  of this FILLED order to CANCELLED.
\<close>

theorem filled_order_becomes_cancelled:
  "poll_once ''test-123'' pending_order tracking_engine (1, PollOrder ''FILLED'' None None) =
     Inr (half_filled_order,
          init_execution_engine\<lparr>pending_orders := [(''test-123'', half_filled_order)]\<rparr>) \<and>
   status half_filled_order = FILLED \<and>
   wait_for_fill tracking_engine ''test-123''
       [(1, PollOrder ''FILLED'' None None), (2, PollOrder ''CANCELLED'' None None)] True =
     (Some (half_filled_order\<lparr>status := CANCELLED, error_message := Some ''Order CANCELLED''\<rparr>),
      init_execution_engine) \<and>
   wait_for_fill tracking_engine ''test-123'' [(1, PollOrder ''FILLED'' None None)] True =
     (Some (half_filled_order\<lparr>status := CANCELLED, error_message := Some ''Order timeout''\<rparr>),
      init_execution_engine)"
  by (simp add: wait_for_fill_def tracking_engine_def poll_once_def del_pending_def
        write_through_def half_filled_order_def pending_order_def init_execution_engine_def
        Let_def)

text \<open>
  C7 fails on the code where the cancel call raises. The assignments that mark the order
  CANCELLED stand inside the \<^verbatim>\<open>try\<close>, after the cancel call: when that call raises
  they are skipped, and the order leaves the pending dictionary with status PENDING and
  no error message. When the cancel call returns, the order is marked CANCELLED with the
  message \<^verbatim>\<open>Order timeout\<close>.
\<close>

theorem timeout_with_failed_cancel_leaves_pending:
  "wait_for_fill tracking_engine ''test-123'' [(1, PollOrder ''OPEN'' None None)] False =
     (Some pending_order, init_execution_engine) \<and>
   status pending_order = PENDING \<and> error_message pending_order = None \<and>
   wait_for_fill tracking_engine ''test-123'' [(1, PollOrder ''OPEN'' None None)] True =
     (Some (pending_order\<lparr>status := CANCELLED, error_message := Some ''Order timeout''\<rparr>),
      init_execution_engine)"
  by (simp add: wait_for_fill_def tracking_engine_def poll_once_def del_pending_def
        pending_order_def init_execution_engine_def)

end
